theory Spec2Isabelle
  imports Main
begin

section \<open>Python objects exchanged by the adapters\<close>

text \<open>
  The module \<^verbatim>\<open>torch/utils/data/datapipes/iter/sampler.py\<close> defines two classes,
  \<^verbatim>\<open>FilterIterDataPipe\<close> and \<^verbatim>\<open>SamplerIterDataPipe\<close>. Both wrap an upstream
  \<^verbatim>\<open>IterDataPipe\<close>. Exceptions are values of the type \<open>error\<close>; a call that may raise
  returns \<open>error + 'a\<close>, with \<open>Inl\<close> for the exception.
\<close>

datatype error =
    NotImplementedError
  | AssertionError string
  | AttributeError string
  | TypeError
  | ValueError
  | OverflowError
  | StopIteration
  | RuntimeError string
  | Exception string

text \<open>
  One full pass over an iterable (a \<^verbatim>\<open>for\<close> loop over it, run to its end): the elements
  it yields, in order, and how the pass ends, \<open>None\<close> for exhaustion and \<open>Some e\<close> for the
  exception \<open>e\<close> raised after the last yielded element. \<^verbatim>\<open>StopIteration\<close> out of
  \<^verbatim>\<open>__next__\<close> is exhaustion itself, so \<open>e\<close> is another exception. The model covers finite
  passes.
\<close>

type_synonym 'a run = "'a list \<times> error option"

text \<open>
  A Python callable as the filter uses it. \<open>fn_name\<close> is the attribute \<^verbatim>\<open>__name__\<close>:
  functions and lambdas have one, other callables (a \<^verbatim>\<open>functools.partial\<close> object, an
  instance of a class with \<^verbatim>\<open>__call__\<close>) need not, and reading the attribute then raises
  \<^verbatim>\<open>AttributeError\<close>. \<open>fn_call f data args kwargs\<close> is the call
  \<^verbatim>\<open>f(data, *args, **kwargs)\<close>: it raises, or returns an object whose truth value is the
  boolean.
\<close>

record ('a, 'v) callable =
  fn_name :: "string option"
  fn_call :: "'a \<Rightarrow> 'v list \<Rightarrow> (string \<rightharpoonup> 'v) \<Rightarrow> error + bool"

text \<open>
  An upstream pipeline, seen through the two methods the adapters use: \<open>dp_iter\<close> is a pass
  over \<^verbatim>\<open>__iter__\<close>, and \<open>dp_len\<close> is \<open>None\<close> when the class defines no \<^verbatim>\<open>__len__\<close>, and
  otherwise what \<^verbatim>\<open>__len__\<close> does when called.
\<close>

record 'a IterDataPipe =
  dp_iter :: "'a run"
  dp_len :: "(error + int) option"

text \<open>\<^verbatim>\<open>isinstance(obj, Sized)\<close>: the class of the object defines \<^verbatim>\<open>__len__\<close>.\<close>

definition isinstance_Sized :: "(error + int) option \<Rightarrow> bool" where
  "isinstance_Sized m = (case m of None \<Rightarrow> False | Some r \<Rightarrow> True)"

text \<open>
  The builtin \<^verbatim>\<open>len(obj)\<close> of CPython: \<^verbatim>\<open>TypeError\<close> without \<^verbatim>\<open>__len__\<close>, the exception
  of \<^verbatim>\<open>__len__\<close> when it raises, \<^verbatim>\<open>ValueError\<close> when \<^verbatim>\<open>__len__\<close> returns a negative number,
  \<^verbatim>\<open>OverflowError\<close> above \<^verbatim>\<open>sys.maxsize\<close> (here of a 64-bit build).
\<close>

definition sys_maxsize :: int where
  "sys_maxsize = 2 ^ 63 - 1"

definition builtin_len :: "(error + int) option \<Rightarrow> error + int" where
  "builtin_len m =
     (case m of
        None \<Rightarrow> Inl TypeError
      | Some (Inl e) \<Rightarrow> Inl e
      | Some (Inr n) \<Rightarrow>
          if n < 0 then Inl ValueError
          else if sys_maxsize < n then Inl OverflowError
          else Inr n)"

section \<open>FilterIterDataPipe\<close>

record ('a, 'v) FilterIterDataPipe =
  datapipe :: "'a IterDataPipe"
  filter_fn :: "('a, 'v) callable"
  args :: "'v list"
  kwargs :: "string \<rightharpoonup> 'v"

definition lambda_warning :: string where
  "lambda_warning =
     ''Lambda function for `filter_fn` is not supported for pickle, '' @
     ''please use regular python function instead.''"

text \<open>
  \<^verbatim>\<open>__init__\<close> returns the warnings it emits together with the new object. The comparison
  \<^verbatim>\<open>filter_fn.__name__ == '<lambda>'\<close> reads the attribute first.
\<close>

definition FilterIterDataPipe_init ::
  "'a IterDataPipe \<Rightarrow> 'v list \<Rightarrow> ('a, 'v) callable \<Rightarrow> (string \<rightharpoonup> 'v)
     \<Rightarrow> error + (string list \<times> ('a, 'v) FilterIterDataPipe)" where
  "FilterIterDataPipe_init dp as fn kw =
     (case fn_name fn of
        None \<Rightarrow> Inl (AttributeError ''__name__'')
      | Some n \<Rightarrow>
          Inr (if n = ''<lambda>'' then [lambda_warning] else [],
               \<lparr>datapipe = dp, filter_fn = fn, args = as, kwargs = kw\<rparr>))"

text \<open>
  \<^verbatim>\<open>__iter__\<close> is a generator function (its body has a \<^verbatim>\<open>yield\<close>). An exception raised
  in the body of a generator reaches the caller as it is, except \<^verbatim>\<open>StopIteration\<close>, which
  the generator replaces by \<^verbatim>\<open>RuntimeError\<close> (PEP 479, Python 3.7 and later).
\<close>

definition generator_raise :: "error \<Rightarrow> error" where
  "generator_raise err =
     (if err = StopIteration then RuntimeError ''generator raised StopIteration'' else err)"

text \<open>
  The loop of \<^verbatim>\<open>__iter__\<close> over the elements the upstream yields; \<open>e\<close> is how the upstream
  pass ends. An exception of the predicate ends the pass at once.
\<close>

fun filter_loop ::
  "('a, 'v) callable \<Rightarrow> 'v list \<Rightarrow> (string \<rightharpoonup> 'v) \<Rightarrow> 'a list \<Rightarrow> error option \<Rightarrow> 'a run" where
  "filter_loop fn as kw [] e = ([], e)"
| "filter_loop fn as kw (data # rest) e =
     (case fn_call fn data as kw of
        Inl err \<Rightarrow> ([], Some (generator_raise err))
      | Inr b \<Rightarrow>
          (case filter_loop fn as kw rest e of
             (ys, r) \<Rightarrow> (if b then data # ys else ys, r)))"

definition FilterIterDataPipe_iter :: "('a, 'v) FilterIterDataPipe \<Rightarrow> 'a run" where
  "FilterIterDataPipe_iter self =
     (case dp_iter (datapipe self) of
        (xs, e) \<Rightarrow> filter_loop (filter_fn self) (args self) (kwargs self) xs e)"

definition FilterIterDataPipe_len :: "('a, 'v) FilterIterDataPipe \<Rightarrow> error + int" where
  "FilterIterDataPipe_len self = Inl NotImplementedError"

text \<open>
  A filter adapter used as the upstream of another adapter: the class derives from
  \<^verbatim>\<open>IterDataPipe\<close> and defines both \<^verbatim>\<open>__iter__\<close> and \<^verbatim>\<open>__len__\<close>.
\<close>

definition FilterIterDataPipe_upstream :: "('a, 'v) FilterIterDataPipe \<Rightarrow> 'a IterDataPipe" where
  "FilterIterDataPipe_upstream self =
     \<lparr>dp_iter = FilterIterDataPipe_iter self, dp_len = Some (FilterIterDataPipe_len self)\<rparr>"

section \<open>SamplerIterDataPipe\<close>

text \<open>
  A constructed sampler object: a pass over \<^verbatim>\<open>iter(sampler)\<close>, and its \<^verbatim>\<open>__len__\<close> as for
  a pipeline.
\<close>

record 'a Sampler =
  sampler_iter :: "'a run"
  sampler_len :: "(error + int) option"

record 'a SamplerIterDataPipe =
  s_datapipe :: "'a IterDataPipe"
  sampler :: "'a Sampler"

text \<open>
  Modelled from the spec: the class \<^verbatim>\<open>SequentialSampler\<close> of \<^verbatim>\<open>torch.utils.data\<close>, the
  default of the \<^verbatim>\<open>sampler\<close> argument, is imported by the module and not part of it. The
  spec says of it that it reproduces the upstream's natural element order (identity,
  sequential pass-through) and that the adapter's count is then the length of the
  upstream; the model passes the iteration and the count of the data source through.
\<close>

definition SequentialSampler ::
  "'a IterDataPipe \<Rightarrow> (string \<rightharpoonup> 'v) \<Rightarrow> error + 'a Sampler" where
  "SequentialSampler data_source kw =
     Inr \<lparr>sampler_iter = dp_iter data_source, sampler_len = dp_len data_source\<rparr>"

definition sized_assert_msg :: string where
  "sized_assert_msg = ''Sampler class requires input datapipe implemented `__len__`''"

text \<open>
  \<^verbatim>\<open>__init__\<close>; the argument \<open>sampler_arg\<close> is \<open>None\<close> when the caller supplies no sampler
  class, and the default applies. A sampler class is the function from the data source and
  the named arguments to the constructed sampler, or the exception of its constructor.
\<close>

definition SamplerIterDataPipe_init ::
  "'a IterDataPipe \<Rightarrow> ('a IterDataPipe \<Rightarrow> (string \<rightharpoonup> 'v) \<Rightarrow> error + 'a Sampler) option
     \<Rightarrow> (string \<rightharpoonup> 'v) \<Rightarrow> error + 'a SamplerIterDataPipe" where
  "SamplerIterDataPipe_init dp sampler_arg kw =
     (if isinstance_Sized (dp_len dp) then
        (case (case sampler_arg of None \<Rightarrow> SequentialSampler | Some c \<Rightarrow> c) dp kw of
           Inl e \<Rightarrow> Inl e
         | Inr s \<Rightarrow> Inr \<lparr>s_datapipe = dp, sampler = s\<rparr>)
      else Inl (AssertionError sized_assert_msg))"

definition SamplerIterDataPipe_iter :: "'a SamplerIterDataPipe \<Rightarrow> 'a run" where
  "SamplerIterDataPipe_iter self = sampler_iter (sampler self)"

definition SamplerIterDataPipe_len :: "'a SamplerIterDataPipe \<Rightarrow> error + int" where
  "SamplerIterDataPipe_len self =
     (if isinstance_Sized (sampler_len (sampler self)) then
        (case builtin_len (sampler_len (sampler self)) of
           Inl e \<Rightarrow> Inl e
         | Inr n \<Rightarrow>
             if 0 \<le> n then builtin_len (sampler_len (sampler self))
             else Inl NotImplementedError)
      else Inl NotImplementedError)"

section \<open>The filter adapter among objects with state\<close>

text \<open>
  What a pass yields can depend on state outside the adapter: an upstream may keep a
  cursor, a predicate may count its calls. Here that state is a value \<open>'w\<close> which every
  call takes and returns. An upstream answers \<^verbatim>\<open>iter(datapipe)\<close> with an iterator \<open>'c\<close> or an
  exception, and \<^verbatim>\<open>next(it)\<close> with a step and the iterator after it.
\<close>

datatype 'a step = Item 'a | Done | Raised error

record ('a, 'c, 'w) stateful_pipe =
  sp_iter :: "'w \<Rightarrow> (error + 'c) \<times> 'w"
  sp_next :: "'c \<Rightarrow> 'w \<Rightarrow> ('a step \<times> 'c) \<times> 'w"

text \<open>
  The four attributes \<^verbatim>\<open>__init__\<close> sets. The class has no other, and no method assigns
  one.
\<close>

record ('a, 'v, 'c, 'w) FilterIterDataPipe_obj =
  obj_datapipe :: "('a, 'c, 'w) stateful_pipe"
  obj_filter_fn :: "'a \<Rightarrow> 'v list \<Rightarrow> (string \<rightharpoonup> 'v) \<Rightarrow> 'w \<Rightarrow> (error + bool) \<times> 'w"
  obj_args :: "'v list"
  obj_kwargs :: "string \<rightharpoonup> 'v"

text \<open>
  The generator of \<^verbatim>\<open>__iter__\<close>, run to its end by a \<^verbatim>\<open>for\<close> loop that collects what it
  yields in \<open>out\<close>. The \<^verbatim>\<open>for\<close> statement of the body asks the upstream iterator \<open>it\<close> for
  the next element, \<^verbatim>\<open>StopIteration\<close> ends it, and the predicate is called on each
  element before the next is asked for. The iterator is a local of the generator. The
  result is \<open>None\<close> when the pass does not end.
\<close>

partial_function (option) generator_run ::
  "('a, 'v, 'c, 'w) FilterIterDataPipe_obj \<Rightarrow> 'c \<Rightarrow> 'w \<Rightarrow> 'a list \<Rightarrow> ('a run \<times> 'w) option" where
  "generator_run self it w out =
     (case sp_next (obj_datapipe self) it w of
        ((Done, it'), w') \<Rightarrow> Some ((out, None), w')
      | ((Raised e, it'), w') \<Rightarrow> Some ((out, if e = StopIteration then None else Some e), w')
      | ((Item data, it'), w') \<Rightarrow>
          (case obj_filter_fn self data (obj_args self) (obj_kwargs self) w' of
             (Inl err, w'') \<Rightarrow> Some ((out, Some (generator_raise err)), w'')
           | (Inr b, w'') \<Rightarrow> generator_run self it' w'' (if b then out @ [data] else out)))"

text \<open>One pass: the body first evaluates \<^verbatim>\<open>iter(self.datapipe)\<close>.\<close>

definition FilterIterDataPipe_traverse ::
  "('a, 'v, 'c, 'w) FilterIterDataPipe_obj \<Rightarrow> 'w \<Rightarrow> ('a run \<times> 'w) option" where
  "FilterIterDataPipe_traverse self w =
     (case sp_iter (obj_datapipe self) w of
        (Inl e, w') \<Rightarrow> Some (([], Some (generator_raise e)), w')
      | (Inr it, w') \<Rightarrow> generator_run self it w' [])"

text \<open>Two passes over the same adapter, the second in the state the first leaves.\<close>

definition traverse_twice ::
  "('a, 'v, 'c, 'w) FilterIterDataPipe_obj \<Rightarrow> 'w \<Rightarrow> ('a run \<times> 'a run \<times> 'w) option" where
  "traverse_twice self w =
     (case FilterIterDataPipe_traverse self w of
        None \<Rightarrow> None
      | Some (r1, w1) \<Rightarrow>
          (case FilterIterDataPipe_traverse self w1 of
             None \<Rightarrow> None
           | Some (r2, w2) \<Rightarrow> Some (r1, r2, w2)))"

section \<open>Terms of the specification, and example objects\<close>

text \<open>
  The specification speaks of a pipeline that supports a count operation: asking for its
  count returns a number. It says of the filter adapter that it does not support one.
\<close>

definition supports_count :: "'a IterDataPipe \<Rightarrow> bool" where
  "supports_count dp = (case builtin_len (dp_len dp) of Inl e \<Rightarrow> False | Inr n \<Rightarrow> True)"




text \<open>The objects the theorems below are evaluated at.\<close>

definition example_source :: "int IterDataPipe" where
  "example_source = \<lparr>dp_iter = ([1, 2, 3, 4, 5, 6], None), dp_len = Some (Inr 6)\<rparr>"

definition unsized_source :: "int IterDataPipe" where
  "unsized_source = \<lparr>dp_iter = ([1, 2, 3], None), dp_len = None\<rparr>"

definition no_kwargs :: "string \<rightharpoonup> int" where
  "no_kwargs = Map.empty"

definition is_even :: "(int, int) callable" where
  "is_even = \<lparr>fn_name = Some ''is_even'', fn_call = (\<lambda>x as kw. Inr (x mod 2 = 0))\<rparr>"

definition divisible_by :: "(int, int) callable" where
  "divisible_by =
     \<lparr>fn_name = Some ''divisible_by'',
      fn_call = (\<lambda>x as kw. case as of [d] \<Rightarrow> Inr (x mod d = 0) | _ \<Rightarrow> Inl TypeError)\<rparr>"

definition even_below_four :: "(int, int) callable" where
  "even_below_four =
     \<lparr>fn_name = Some ''even_below_four'',
      fn_call = (\<lambda>x as kw. if x < 4 then Inr (x mod 2 = 0) else Inl (Exception ''too large''))\<rparr>"

text \<open>A predicate that raises \<^verbatim>\<open>StopIteration\<close> from 4 on.\<close>

definition stops_at_four :: "(int, int) callable" where
  "stops_at_four =
     \<lparr>fn_name = Some ''stops_at_four'',
      fn_call = (\<lambda>x as kw. if x < 4 then Inr (x mod 2 = 0) else Inl StopIteration)\<rparr>"


definition one_shot_pipe :: "('a, unit, 'a list) stateful_pipe" where
  "one_shot_pipe =
     \<lparr>sp_iter = (\<lambda>w. (Inr (), w)),
      sp_next = (\<lambda>it w. case w of [] \<Rightarrow> ((Done, ()), []) | x # rest \<Rightarrow> ((Item x, ()), rest))\<rparr>"

definition is_even_obj ::
  "int \<Rightarrow> int list \<Rightarrow> (string \<rightharpoonup> int) \<Rightarrow> 'w \<Rightarrow> (error + bool) \<times> 'w" where
  "is_even_obj x as kw w = (fn_call is_even x as kw, w)"

text \<open>\<^verbatim>\<open>functools.partial(is_even)\<close>: callable, without \<^verbatim>\<open>__name__\<close>.\<close>

definition partial_is_even :: "(int, int) callable" where
  "partial_is_even = \<lparr>fn_name = None, fn_call = (\<lambda>x as kw. Inr (x mod 2 = 0))\<rparr>"

text \<open>A sampler class that yields its data source backwards and reports its count.\<close>

definition ReverseSampler :: "int IterDataPipe \<Rightarrow> (string \<rightharpoonup> int) \<Rightarrow> error + int Sampler" where
  "ReverseSampler data_source kw =
     Inr \<lparr>sampler_iter = (rev (fst (dp_iter data_source)), snd (dp_iter data_source)),
          sampler_len = dp_len data_source\<rparr>"

text \<open>A sampler class whose \<^verbatim>\<open>__len__\<close> returns \<^verbatim>\<open>-1\<close>.\<close>

definition NegativeLenSampler :: "int IterDataPipe \<Rightarrow> (string \<rightharpoonup> int) \<Rightarrow> error + int Sampler" where
  "NegativeLenSampler data_source kw =
     Inr \<lparr>sampler_iter = dp_iter data_source, sampler_len = Some (Inr (- 1))\<rparr>"

section \<open>Iterating the filter adapter\<close>

lemma filter_loop_total:
  "\<forall>x\<in>set xs. \<exists>b. fn_call fn x as kw = Inr b \<Longrightarrow>
   filter_loop fn as kw xs e = (filter (\<lambda>x. fn_call fn x as kw = Inr True) xs, e)"
  by (induction xs) auto

lemma filter_loop_raise:
  "\<forall>x\<in>set pre. \<exists>b. fn_call fn x as kw = Inr b \<Longrightarrow> fn_call fn x as kw = Inl err \<Longrightarrow>
   filter_loop fn as kw (pre @ x # post) e
     = (filter (\<lambda>x. fn_call fn x as kw = Inr True) pre, Some (generator_raise err))"
  by (induction pre) auto

lemma filter_loop_idem:
  "filter_loop fn as kw (fst (filter_loop fn as kw xs e)) (snd (filter_loop fn as kw xs e))
     = filter_loop fn as kw xs e"
  by (induction xs) (auto split: sum.splits prod.splits)

lemma init_fields:
  "FilterIterDataPipe_init dp as fn kw = Inr (w, self) \<Longrightarrow>
   self = \<lparr>datapipe = dp, filter_fn = fn, args = as, kwargs = kw\<rparr>"
  by (auto simp: FilterIterDataPipe_init_def split: option.splits)

text \<open>
  C1. Let the adapter be constructed over an upstream that yields the sequence \<open>S\<close>, with
  the predicate \<open>fn\<close> and the extra arguments \<open>as\<close> and \<open>kw\<close>, and let the predicate return
  on every element of \<open>S\<close>. Then one pass over the adapter yields exactly the elements
  \<open>x\<close> of \<open>S\<close> for which the call \<open>fn(x, *as, **kw)\<close> is truthy, in the order of \<open>S\<close>, and
  ends as the upstream pass ends; so it yields at most \<open>length S\<close> elements.
\<close>

theorem filter_iter_subsequence:
  assumes "FilterIterDataPipe_init dp as fn kw = Inr (w, self)"
    and "dp_iter dp = (S, e)"
    and "\<forall>x\<in>set S. \<exists>b. fn_call fn x as kw = Inr b"
  shows "FilterIterDataPipe_iter self = (filter (\<lambda>x. fn_call fn x as kw = Inr True) S, e)
         \<and> length (fst (FilterIterDataPipe_iter self)) \<le> length S"
proof -
  have self: "self = \<lparr>datapipe = dp, filter_fn = fn, args = as, kwargs = kw\<rparr>"
    using assms(1) by (rule init_fields)
  have "FilterIterDataPipe_iter self = filter_loop fn as kw S e"
    by (simp add: self FilterIterDataPipe_iter_def assms(2))
  then have "FilterIterDataPipe_iter self = (filter (\<lambda>x. fn_call fn x as kw = Inr True) S, e)"
    using assms(3) by (simp add: filter_loop_total)
  then show ?thesis by simp
qed

theorem filter_iter_subsequence_witness:
  "FilterIterDataPipe_init example_source [2] divisible_by no_kwargs
     = Inr ([], \<lparr>datapipe = example_source, filter_fn = divisible_by, args = [2],
                 kwargs = no_kwargs\<rparr>)
   \<and> dp_iter example_source = ([1, 2, 3, 4, 5, 6], None)
   \<and> map (\<lambda>x. fn_call divisible_by x [2] no_kwargs) [1, 2, 3, 4, 5, 6]
       = [Inr False, Inr True, Inr False, Inr True, Inr False, Inr True]
   \<and> FilterIterDataPipe_iter
        \<lparr>datapipe = example_source, filter_fn = divisible_by, args = [2], kwargs = no_kwargs\<rparr>
      = ([2, 4, 6], None)"
proof -
  have h0: "map (\<lambda>x. fn_call divisible_by x [2] no_kwargs) [1, 2, 3, 4, 5, 6]
       = [Inr False, Inr True, Inr False, Inr True, Inr False, Inr True]"
    by (simp add: divisible_by_def)
  have h1: "FilterIterDataPipe_init example_source [2] divisible_by no_kwargs
     = Inr ([], \<lparr>datapipe = example_source, filter_fn = divisible_by, args = [2],
                 kwargs = no_kwargs\<rparr>)"
    by (simp add: FilterIterDataPipe_init_def divisible_by_def)
  have h2: "dp_iter example_source = ([1, 2, 3, 4, 5, 6], None)"
    by (simp add: example_source_def)
  have h3: "\<forall>x\<in>set [1, 2, 3, 4, 5, 6]. \<exists>b. fn_call divisible_by x [2] no_kwargs = Inr b"
    by (simp add: divisible_by_def)
  have "FilterIterDataPipe_iter
        \<lparr>datapipe = example_source, filter_fn = divisible_by, args = [2], kwargs = no_kwargs\<rparr>
      = (filter (\<lambda>x. fn_call divisible_by x [2] no_kwargs = Inr True) [1, 2, 3, 4, 5, 6], None)"
    using filter_iter_subsequence [OF h1 h2 h3] by (rule conjunct1)
  then have "FilterIterDataPipe_iter
        \<lparr>datapipe = example_source, filter_fn = divisible_by, args = [2], kwargs = no_kwargs\<rparr>
      = ([2, 4, 6], None)"
    by (simp add: divisible_by_def)
  then show ?thesis using h0 h1 h2 by blast
qed

text \<open>
  C6, as the code has it. Let the predicate raise \<open>err\<close> on the \<open>k\<close>-th element of \<open>S\<close>,
  counted from 1, having returned on the \<open>k - 1\<close> elements before it (otherwise the pass
  never reaches the \<open>k\<close>-th element). Then the pass yields exactly the passing elements
  among the first \<open>k - 1\<close> and ends with an exception; nothing after the \<open>k\<close>-th element is
  yielded. The exception is \<open>err\<close> itself, unless \<open>err\<close> is \<^verbatim>\<open>StopIteration\<close>: then it is the
  \<^verbatim>\<open>RuntimeError\<close> of the generator.
\<close>

theorem filter_iter_raise:
  assumes "FilterIterDataPipe_init dp as fn kw = Inr (w, self)"
    and "dp_iter dp = (S, e)"
    and "1 \<le> k" and "k \<le> length S"
    and "fn_call fn (S ! (k - 1)) as kw = Inl err"
    and "\<forall>i<k - 1. \<exists>b. fn_call fn (S ! i) as kw = Inr b"
  shows "FilterIterDataPipe_iter self
           = (filter (\<lambda>x. fn_call fn x as kw = Inr True) (take (k - 1) S),
              Some (if err = StopIteration
                    then RuntimeError ''generator raised StopIteration'' else err))"
proof -
  have self: "self = \<lparr>datapipe = dp, filter_fn = fn, args = as, kwargs = kw\<rparr>"
    using assms(1) by (rule init_fields)
  have lt: "k - 1 < length S" using assms(3,4) by simp
  have parts: "S = take (k - 1) S @ S ! (k - 1) # drop k S"
    using id_take_nth_drop [OF lt] assms(3) by simp
  have pre: "\<forall>x\<in>set (take (k - 1) S). \<exists>b. fn_call fn x as kw = Inr b"
  proof
    fix x assume "x \<in> set (take (k - 1) S)"
    then obtain i where "i < k - 1" and "x = S ! i"
      using lt by (auto simp: in_set_conv_nth)
    then show "\<exists>b. fn_call fn x as kw = Inr b" using assms(6) by simp
  qed
  have "filter_loop fn as kw (take (k - 1) S @ S ! (k - 1) # drop k S) e
          = (filter (\<lambda>x. fn_call fn x as kw = Inr True) (take (k - 1) S),
             Some (generator_raise err))"
    using pre assms(5) by (rule filter_loop_raise)
  then have "filter_loop fn as kw S e
          = (filter (\<lambda>x. fn_call fn x as kw = Inr True) (take (k - 1) S),
             Some (generator_raise err))"
    using parts by simp
  then show ?thesis
    by (simp add: self FilterIterDataPipe_iter_def assms(2) generator_raise_def)
qed

theorem filter_iter_raise_witness:
  "FilterIterDataPipe_init example_source [] even_below_four no_kwargs
     = Inr ([], \<lparr>datapipe = example_source, filter_fn = even_below_four, args = [],
                 kwargs = no_kwargs\<rparr>)
   \<and> dp_iter example_source = ([1, 2, 3, 4, 5, 6], None)
   \<and> (1::nat) \<le> 4 \<and> 4 \<le> length [1, 2, 3, 4, 5, 6 :: int]
   \<and> fn_call even_below_four ([1, 2, 3, 4, 5, 6] ! (4 - 1)) [] no_kwargs
       = Inl (Exception ''too large'')
   \<and> map (\<lambda>x. fn_call even_below_four x [] no_kwargs) (take (4 - 1) [1, 2, 3, 4, 5, 6])
       = [Inr False, Inr True, Inr False]
   \<and> FilterIterDataPipe_iter
        \<lparr>datapipe = example_source, filter_fn = even_below_four, args = [], kwargs = no_kwargs\<rparr>
      = ([2], Some (Exception ''too large''))"
proof -
  have h1: "FilterIterDataPipe_init example_source [] even_below_four no_kwargs
     = Inr ([], \<lparr>datapipe = example_source, filter_fn = even_below_four, args = [],
                 kwargs = no_kwargs\<rparr>)"
    by (simp add: FilterIterDataPipe_init_def even_below_four_def)
  have h2: "dp_iter example_source = ([1, 2, 3, 4, 5, 6], None)"
    by (simp add: example_source_def)
  have h0: "map (\<lambda>x. fn_call even_below_four x [] no_kwargs) (take (4 - 1) [1, 2, 3, 4, 5, 6])
       = [Inr False, Inr True, Inr False]"
    by (simp add: even_below_four_def)
  have h3: "(1::nat) \<le> 4" by simp
  have h4: "4 \<le> length [1, 2, 3, 4, 5, 6 :: int]" by simp
  have h5: "fn_call even_below_four ([1, 2, 3, 4, 5, 6] ! (4 - 1)) [] no_kwargs
       = Inl (Exception ''too large'')"
    by (simp add: even_below_four_def)
  have h6: "\<forall>i<4 - 1. \<exists>b. fn_call even_below_four ([1, 2, 3, 4, 5, 6] ! i) [] no_kwargs = Inr b"
  proof (intro allI impI)
    fix i :: nat assume "i < 4 - 1"
    then have "i = 0 \<or> i = 1 \<or> i = 2" by arith
    then show "\<exists>b. fn_call even_below_four ([1, 2, 3, 4, 5, 6] ! i) [] no_kwargs = Inr b"
      by (auto simp: even_below_four_def)
  qed
  have "FilterIterDataPipe_iter
        \<lparr>datapipe = example_source, filter_fn = even_below_four, args = [], kwargs = no_kwargs\<rparr>
      = (filter (\<lambda>x. fn_call even_below_four x [] no_kwargs = Inr True)
           (take (4 - 1) [1, 2, 3, 4, 5, 6]),
         Some (if Exception ''too large'' = StopIteration
               then RuntimeError ''generator raised StopIteration''
               else Exception ''too large''))"
    using h1 h2 h3 h4 h5 h6 by (rule filter_iter_raise)
  then have "FilterIterDataPipe_iter
        \<lparr>datapipe = example_source, filter_fn = even_below_four, args = [], kwargs = no_kwargs\<rparr>
      = ([2], Some (Exception ''too large''))"
    by (simp add: even_below_four_def)
  then show ?thesis using h0 h1 h2 h3 h4 h5 by blast
qed

text \<open>
  C6 as stated, with the failure propagated unchanged, fails for a predicate that raises
  \<^verbatim>\<open>StopIteration\<close>. On the upstream 1 to 6 the predicate \<open>stops_at_four\<close> returns on 1, 2
  and 3 and raises \<^verbatim>\<open>StopIteration\<close> on the fourth element; the pass yields 2 and ends
  with \<^verbatim>\<open>RuntimeError\<close>, not with \<^verbatim>\<open>StopIteration\<close>.
\<close>

theorem filter_iter_stop_iteration:
  "FilterIterDataPipe_init example_source [] stops_at_four no_kwargs
     = Inr ([], \<lparr>datapipe = example_source, filter_fn = stops_at_four, args = [],
                 kwargs = no_kwargs\<rparr>)
   \<and> dp_iter example_source = ([1, 2, 3, 4, 5, 6], None)
   \<and> map (\<lambda>x. fn_call stops_at_four x [] no_kwargs) (take (4 - 1) [1, 2, 3, 4, 5, 6])
       = [Inr False, Inr True, Inr False]
   \<and> fn_call stops_at_four ([1, 2, 3, 4, 5, 6] ! (4 - 1)) [] no_kwargs = Inl StopIteration
   \<and> FilterIterDataPipe_iter
        \<lparr>datapipe = example_source, filter_fn = stops_at_four, args = [], kwargs = no_kwargs\<rparr>
      = ([2], Some (RuntimeError ''generator raised StopIteration''))
   \<and> FilterIterDataPipe_iter
        \<lparr>datapipe = example_source, filter_fn = stops_at_four, args = [], kwargs = no_kwargs\<rparr>
      \<noteq> (filter (\<lambda>x. fn_call stops_at_four x [] no_kwargs = Inr True)
           (take (4 - 1) [1, 2, 3, 4, 5, 6]), Some StopIteration)"
  by (simp add: FilterIterDataPipe_init_def FilterIterDataPipe_iter_def example_source_def
      stops_at_four_def generator_raise_def)

section \<open>Successive passes over one filter adapter\<close>




text \<open>
  The hypotheses matter. An upstream that is its own iterator keeps its cursor in the
  state: the first pass over the adapter exhausts it and the second pass yields nothing.
\<close>

lemma traverse_twice_one_shot:
  "traverse_twice
     \<lparr>obj_datapipe = one_shot_pipe, obj_filter_fn = is_even_obj, obj_args = [],
      obj_kwargs = no_kwargs\<rparr> [1, 2, 3, 4, 5, 6]
   = Some (([2, 4, 6], None), ([], None), [])"
  by (simp add: traverse_twice_def FilterIterDataPipe_traverse_def generator_run.simps
      one_shot_pipe_def is_even_obj_def is_even_def)



text \<open>
  C9. A filter adapter with the predicate and arguments of the filter adapter it wraps
  yields, and ends, as the inner adapter does alone.
\<close>

theorem filter_idempotent:
  "FilterIterDataPipe_iter
     \<lparr>datapipe = FilterIterDataPipe_upstream
                   \<lparr>datapipe = dp, filter_fn = fn, args = as, kwargs = kw\<rparr>,
      filter_fn = fn, args = as, kwargs = kw\<rparr>
   = FilterIterDataPipe_iter \<lparr>datapipe = dp, filter_fn = fn, args = as, kwargs = kw\<rparr>"
proof -
  obtain S e where up: "dp_iter dp = (S, e)" by (cases "dp_iter dp")
  obtain ys r where inner: "filter_loop fn as kw S e = (ys, r)"
    by (cases "filter_loop fn as kw S e")
  have "filter_loop fn as kw ys r = (ys, r)"
    using filter_loop_idem [of fn as kw S e] inner by simp
  then show ?thesis
    by (simp add: FilterIterDataPipe_iter_def FilterIterDataPipe_upstream_def up inner)
qed

section \<open>The count of the filter adapter\<close>

text \<open>
  C3. For every upstream pipeline, predicate and extra arguments, the count operation of
  the filter adapter raises \<^verbatim>\<open>NotImplementedError\<close>, directly and through the builtin
  \<^verbatim>\<open>len\<close>, and so returns no value.
\<close>

theorem filter_len_not_implemented:
  "FilterIterDataPipe_len \<lparr>datapipe = dp, filter_fn = fn, args = as, kwargs = kw\<rparr>
     = Inl NotImplementedError
   \<and> builtin_len (dp_len (FilterIterDataPipe_upstream
        \<lparr>datapipe = dp, filter_fn = fn, args = as, kwargs = kw\<rparr>)) = Inl NotImplementedError
   \<and> (\<forall>n. FilterIterDataPipe_len \<lparr>datapipe = dp, filter_fn = fn, args = as, kwargs = kw\<rparr>
        \<noteq> Inr n)"
  by (simp add: FilterIterDataPipe_len_def FilterIterDataPipe_upstream_def builtin_len_def)

section \<open>Constructing the filter adapter\<close>

text \<open>
  With a predicate that has a \<^verbatim>\<open>__name__\<close>, construction succeeds and stores its four
  arguments; it warns exactly when the name is \<^verbatim>\<open><lambda>\<close>.
\<close>

lemma filter_init_named:
  "fn_name fn = Some n \<Longrightarrow>
   FilterIterDataPipe_init dp as fn kw
     = Inr (if n = ''<lambda>'' then [lambda_warning] else [],
            \<lparr>datapipe = dp, filter_fn = fn, args = as, kwargs = kw\<rparr>)"
  by (simp add: FilterIterDataPipe_init_def)

text \<open>
  C7 states that construction succeeds for every callable predicate. A callable without
  \<^verbatim>\<open>__name__\<close>, such as a \<^verbatim>\<open>functools.partial\<close> object, is a counterexample:
  \<^verbatim>\<open>__init__\<close> raises \<^verbatim>\<open>AttributeError\<close> and constructs nothing.
\<close>

theorem filter_init_partial:
  "FilterIterDataPipe_init example_source [] partial_is_even no_kwargs
     = Inl (AttributeError ''__name__'')"
  by (simp add: FilterIterDataPipe_init_def partial_is_even_def)

section \<open>Constructing the sampler adapter\<close>

lemma builtin_len_Inr:
  "builtin_len m = Inr n \<Longrightarrow> m = Some (Inr n) \<and> 0 \<le> n \<and> n \<le> sys_maxsize"
  by (auto simp: builtin_len_def split: option.splits sum.splits if_splits)

text \<open>
  C2. Let the upstream yield the sequence \<open>S\<close> and let its count be \<open>length S\<close>. The adapter
  constructed with no sampler class and no named arguments yields \<open>S\<close>, in order, and its
  count is \<open>length S\<close>.
\<close>

theorem default_sampler_identity:
  assumes "dp_iter dp = (S, None)"
    and "builtin_len (dp_len dp) = Inr (int (length S))"
  shows "\<exists>self. SamplerIterDataPipe_init dp None Map.empty = Inr self
           \<and> SamplerIterDataPipe_iter self = (S, None)
           \<and> SamplerIterDataPipe_len self = Inr (int (length S))"
proof -
  have len: "dp_len dp = Some (Inr (int (length S)))"
    using builtin_len_Inr [OF assms(2)] by simp
  let ?self = "\<lparr>s_datapipe = dp,
                 sampler = \<lparr>sampler_iter = dp_iter dp, sampler_len = dp_len dp\<rparr>\<rparr>"
  have "SamplerIterDataPipe_init dp None Map.empty = Inr ?self"
    by (simp add: SamplerIterDataPipe_init_def SequentialSampler_def isinstance_Sized_def len)
  moreover have "SamplerIterDataPipe_iter ?self = (S, None)"
    by (simp add: SamplerIterDataPipe_iter_def assms(1))
  moreover have "SamplerIterDataPipe_len ?self = Inr (int (length S))"
    using assms(2) by (simp add: SamplerIterDataPipe_len_def isinstance_Sized_def len)
  ultimately show ?thesis by blast
qed

theorem default_sampler_identity_witness:
  "dp_iter example_source = ([1, 2, 3, 4, 5, 6], None)
   \<and> builtin_len (dp_len example_source) = Inr (int (length [1, 2, 3, 4, 5, 6 :: int]))
   \<and> (\<exists>self. SamplerIterDataPipe_init example_source None Map.empty = Inr self
         \<and> SamplerIterDataPipe_iter self = ([1, 2, 3, 4, 5, 6], None)
         \<and> SamplerIterDataPipe_len self = Inr 6)"
proof -
  have h1: "dp_iter example_source = ([1, 2, 3, 4, 5, 6], None)"
    by (simp add: example_source_def)
  have h2: "builtin_len (dp_len example_source) = Inr (int (length [1, 2, 3, 4, 5, 6 :: int]))"
    by (simp add: example_source_def builtin_len_def sys_maxsize_def)
  have "\<exists>self. SamplerIterDataPipe_init example_source None Map.empty = Inr self
         \<and> SamplerIterDataPipe_iter self = ([1, 2, 3, 4, 5, 6], None)
         \<and> SamplerIterDataPipe_len self = Inr (int (length [1, 2, 3, 4, 5, 6 :: int]))"
    using h1 h2 by (rule default_sampler_identity)
  then have "\<exists>self. SamplerIterDataPipe_init example_source None Map.empty = Inr self
         \<and> SamplerIterDataPipe_iter self = ([1, 2, 3, 4, 5, 6], None)
         \<and> SamplerIterDataPipe_len self = Inr 6"
    by simp
  then show ?thesis using h1 h2 by blast
qed

text \<open>
  C4, as the code has it. When the class of the upstream defines no \<^verbatim>\<open>__len__\<close>,
  construction raises \<^verbatim>\<open>AssertionError\<close> with the message that names the requirement,
  whatever the sampler class and the named arguments; no adapter is constructed.
\<close>

theorem sampler_init_requires_len:
  assumes "\<not> isinstance_Sized (dp_len dp)"
  shows "SamplerIterDataPipe_init dp sampler_arg kw = Inl (AssertionError sized_assert_msg)"
  using assms by (simp add: SamplerIterDataPipe_init_def)

theorem sampler_init_requires_len_witness:
  "\<not> isinstance_Sized (dp_len unsized_source)
   \<and> SamplerIterDataPipe_init unsized_source (Some ReverseSampler) no_kwargs
       = Inl (AssertionError ''Sampler class requires input datapipe implemented `__len__`'')"
proof -
  have h: "\<not> isinstance_Sized (dp_len unsized_source)"
    by (simp add: isinstance_Sized_def unsized_source_def)
  have "SamplerIterDataPipe_init unsized_source (Some ReverseSampler) no_kwargs
       = Inl (AssertionError sized_assert_msg)"
    using h by (rule sampler_init_requires_len)
  then show ?thesis using h by (simp add: sized_assert_msg_def)
qed

text \<open>
  C4 as stated fails for an upstream that defines \<^verbatim>\<open>__len__\<close> and raises in it. The filter
  adapter is one: its count never returns, and a sampler adapter is constructed over it.
\<close>

theorem sampler_init_over_filter:
  "\<not> supports_count (FilterIterDataPipe_upstream
        \<lparr>datapipe = example_source, filter_fn = is_even, args = [], kwargs = no_kwargs\<rparr>)
   \<and> SamplerIterDataPipe_init
        (FilterIterDataPipe_upstream
          \<lparr>datapipe = example_source, filter_fn = is_even, args = [], kwargs = no_kwargs\<rparr>)
        (Some ReverseSampler) no_kwargs
      = Inr \<lparr>s_datapipe = FilterIterDataPipe_upstream
               \<lparr>datapipe = example_source, filter_fn = is_even, args = [],
                kwargs = no_kwargs\<rparr>,
             sampler = \<lparr>sampler_iter = ([6, 4, 2], None),
                        sampler_len = Some (Inl NotImplementedError)\<rparr>\<rparr>"
  by (simp add: supports_count_def FilterIterDataPipe_upstream_def FilterIterDataPipe_len_def
      FilterIterDataPipe_iter_def builtin_len_def SamplerIterDataPipe_init_def
      isinstance_Sized_def ReverseSampler_def example_source_def is_even_def)

section \<open>Iterating and counting the sampler adapter\<close>

text \<open>
  C10. A constructed adapter holds the sampler that the sampler class returned for the
  upstream and the named arguments, and a pass over the adapter is the pass over that
  sampler.
\<close>

theorem sampler_iter_delegates:
  assumes "SamplerIterDataPipe_init dp sampler_arg kw = Inr self"
  shows "(case sampler_arg of None \<Rightarrow> SequentialSampler | Some c \<Rightarrow> c) dp kw
           = Inr (sampler self)
         \<and> SamplerIterDataPipe_iter self = sampler_iter (sampler self)"
  using assms
  by (auto simp: SamplerIterDataPipe_init_def SamplerIterDataPipe_iter_def
      split: if_splits sum.splits)

theorem sampler_iter_delegates_witness:
  "SamplerIterDataPipe_init example_source (Some ReverseSampler) no_kwargs
     = Inr \<lparr>s_datapipe = example_source,
            sampler = \<lparr>sampler_iter = ([6, 5, 4, 3, 2, 1], None), sampler_len = Some (Inr 6)\<rparr>\<rparr>
   \<and> SamplerIterDataPipe_iter
       \<lparr>s_datapipe = example_source,
        sampler = \<lparr>sampler_iter = ([6, 5, 4, 3, 2, 1], None), sampler_len = Some (Inr 6)\<rparr>\<rparr>
     = ([6, 5, 4, 3, 2, 1], None)"
proof -
  have h: "SamplerIterDataPipe_init example_source (Some ReverseSampler) no_kwargs
     = Inr \<lparr>s_datapipe = example_source,
            sampler = \<lparr>sampler_iter = ([6, 5, 4, 3, 2, 1], None), sampler_len = Some (Inr 6)\<rparr>\<rparr>"
    by (simp add: SamplerIterDataPipe_init_def isinstance_Sized_def ReverseSampler_def
        example_source_def)
  have "SamplerIterDataPipe_iter
       \<lparr>s_datapipe = example_source,
        sampler = \<lparr>sampler_iter = ([6, 5, 4, 3, 2, 1], None), sampler_len = Some (Inr 6)\<rparr>\<rparr>
     = sampler_iter (sampler
       \<lparr>s_datapipe = example_source,
        sampler = \<lparr>sampler_iter = ([6, 5, 4, 3, 2, 1], None), sampler_len = Some (Inr 6)\<rparr>\<rparr>)"
    using sampler_iter_delegates [OF h] by (rule conjunct2)
  then show ?thesis using h by simp
qed

text \<open>
  The count of the adapter where the claim C5 holds: without \<^verbatim>\<open>__len__\<close> on the sampler
  it raises \<^verbatim>\<open>NotImplementedError\<close>, a count that \<^verbatim>\<open>len\<close> accepts is returned as it is, and
  the upstream held by the adapter plays no part.
\<close>

lemma sampler_len_unsized:
  "sampler_len (sampler self) = None \<Longrightarrow> SamplerIterDataPipe_len self = Inl NotImplementedError"
  by (simp add: SamplerIterDataPipe_len_def isinstance_Sized_def)

lemma sampler_len_reported:
  "sampler_len (sampler self) = Some (Inr n) \<Longrightarrow> 0 \<le> n \<Longrightarrow> n \<le> sys_maxsize \<Longrightarrow>
   SamplerIterDataPipe_len self = Inr n"
  by (simp add: SamplerIterDataPipe_len_def isinstance_Sized_def builtin_len_def)

lemma sampler_len_ignores_datapipe:
  "SamplerIterDataPipe_len (self\<lparr>s_datapipe := dp'\<rparr>) = SamplerIterDataPipe_len self"
  by (simp add: SamplerIterDataPipe_len_def split: sum.splits)

text \<open>
  C5 states that a negative count of the sampler makes the adapter's count raise
  \<^verbatim>\<open>NotImplementedError\<close>. The builtin \<^verbatim>\<open>len\<close> raises \<^verbatim>\<open>ValueError\<close> on a negative
  \<^verbatim>\<open>__len__\<close> before the comparison \<^verbatim>\<open>>= 0\<close> is made, so that is what the adapter raises.
\<close>

theorem sampler_len_negative:
  "SamplerIterDataPipe_init example_source (Some NegativeLenSampler) no_kwargs
     = Inr \<lparr>s_datapipe = example_source,
            sampler = \<lparr>sampler_iter = dp_iter example_source, sampler_len = Some (Inr (- 1))\<rparr>\<rparr>
   \<and> SamplerIterDataPipe_len
       \<lparr>s_datapipe = example_source,
        sampler = \<lparr>sampler_iter = dp_iter example_source, sampler_len = Some (Inr (- 1))\<rparr>\<rparr>
     = Inl ValueError"
  by (simp add: SamplerIterDataPipe_init_def SamplerIterDataPipe_len_def isinstance_Sized_def
      builtin_len_def NegativeLenSampler_def example_source_def)

end
